(* ===== verification/Prelude.thy ===== *)
theory Prelude
  imports Main
begin

text \<open>
  Shared vocabulary of the development. JavaScript objects keep their own
  properties in insertion order, and both the global \<open>window\<close> object and the
  object literal of the implementor table are such ordered property lists. They
  are modelled as association lists, read with \<^const>\<open>map_of\<close> and written with
  \<open>prop_put\<close>, which overwrites an existing key in place and appends a new one at
  the end, as the ECMAScript [[Set]] / CreateDataProperty operations do on an
  ordinary object. The read-after-write and key lemmas below are collected in
  \<open>js_simps\<close> and carry the component proofs.
\<close>

named_theorems js_simps "simplification rules of the JavaScript object model"

type_synonym 'v props = "(string \<times> 'v) list"

fun prop_put :: "'k \<Rightarrow> 'v \<Rightarrow> ('k \<times> 'v) list \<Rightarrow> ('k \<times> 'v) list" where
  "prop_put k v [] = [(k, v)]"
| "prop_put k v ((k', v') # ps) =
     (if k' = k then (k, v) # ps else (k', v') # prop_put k v ps)"

abbreviation prop_keys :: "('k \<times> 'v) list \<Rightarrow> 'k list" where
  "prop_keys ps \<equiv> map fst ps"

subsection \<open>Reading after writing\<close>

lemma map_of_prop_put [js_simps]:
  "map_of (prop_put k v ps) = (map_of ps)(k \<mapsto> v)"
  by (induction ps) (auto simp: fun_eq_iff)

lemma prop_keys_prop_put [js_simps]:
  "prop_keys (prop_put k v ps) =
     (if k \<in> set (prop_keys ps) then prop_keys ps else prop_keys ps @ [k])"
  by (induction ps) force+

lemma prop_put_prop_put [js_simps]:
  "prop_put k w (prop_put k v ps) = prop_put k w ps"
  by (induction ps) auto

end
