(* ===== verification/JsValue.thy ===== *)
theory JsValue
  imports Prelude
begin

text \<open>
  The JavaScript values the fragment builds and inspects. The implementor table
  is an object literal of array literals of strings, numbers and arrays; the
  registration hook is read from \<open>window\<close> and tested in an \<open>if\<close>. So the model
  has the primitive values, arrays, ordinary objects as ordered property lists
  (theory Prelude), and functions, named by a host identifier whose behaviour
  is given by the page (\<^typ>\<open>nat\<close>). Numbers are the integers that occur in the
  source; NaN and fractional numbers are not modelled. Objects and arrays are
  values here, not references: the fragment never mutates one after building it.
\<close>

datatype jsval =
    JUndefined
  | JNull
  | JBool bool
  | JNum int
  | JStr string
  | JArr "jsval list"
  | JObj "jsval props"
  | JFun nat

text \<open>Exceptions a script can end with: the two the engine raises here, and a value
  thrown by called code.\<close>

datatype exn =
    TypeError string
  | ReferenceError string
  | Thrown jsval

text \<open>ToBoolean (ECMAScript 7.1.2), the test of \<open>if (window.register_implementors)\<close>.\<close>

fun truthy :: "jsval \<Rightarrow> bool" where
  "truthy JUndefined = False"
| "truthy JNull = False"
| "truthy (JBool b) = b"
| "truthy (JNum n) = (n \<noteq> 0)"
| "truthy (JStr s) = (s \<noteq> [])"
| "truthy (JArr _) = True"
| "truthy (JObj _) = True"
| "truthy (JFun _) = True"

text \<open>Callable values: the test a call performs before it runs its callee.\<close>

fun is_function :: "jsval \<Rightarrow> bool" where
  "is_function (JFun _) = True"
| "is_function _ = False"

text \<open>
  Evaluation of an object literal \<open>{k1: v1, ..., kn: vn}\<close>: each property
  definition is a CreateDataPropertyOrThrow on the new object, from left to right.
  Keys that are array indices (such as \<open>"1"\<close>) are enumerated by JavaScript
  before the other keys; the model keeps plain insertion order, which is the
  JavaScript order for the table's keys \<open>actix\<close> and \<open>actix_broker\<close>.
\<close>

definition obj_literal :: "jsval props \<Rightarrow> jsval" where
  "obj_literal kvs = JObj (fold (\<lambda>(k, v). prop_put k v) kvs [])"

subsection \<open>Object literals\<close>

lemma truthy_obj_literal [js_simps]: "truthy (obj_literal kvs)"
  by (simp add: obj_literal_def)

end
