(* ===== verification/ImplRecord.thy ===== *)
theory ImplRecord
  imports JsValue
begin

text \<open>
  The shape of the data the fragment hands over (spec, sections 3 and 6): an object
  from library name to an array of implementor records. In the source a record is
  an array literal of one of two shapes: \<open>[text]\<close>, the rendered markup of an
  implementation written in the crate, or \<open>[text, 1, [path]]\<close>, markup followed
  by a numeric flag and an array of path strings. \<open>impl_record\<close> names the two
  shapes and \<open>decode_record\<close> reads one from its array literal; \<open>decode_table\<close>
  reads a whole table, as an association list in the order of the literal, and
  fails on any value of another shape. It is how the contents of the pending
  slot are read back in theory Spec2Isabelle.
\<close>

datatype impl_record =
    ImplText string
  | ImplFlagged string int "string list"

type_synonym impl_table = "(string \<times> impl_record list) list"

fun decode_str :: "jsval \<Rightarrow> string option" where
  "decode_str (JStr s) = Some s"
| "decode_str _ = None"

fun decode_record :: "jsval \<Rightarrow> impl_record option" where
  "decode_record (JArr [JStr t]) = Some (ImplText t)"
| "decode_record (JArr [JStr t, JNum f, JArr ps]) =
     map_option (ImplFlagged t f) (those (map decode_str ps))"
| "decode_record _ = None"

fun decode_entry :: "string \<times> jsval \<Rightarrow> (string \<times> impl_record list) option" where
  "decode_entry (k, JArr rs) = map_option (Pair k) (those (map decode_record rs))"
| "decode_entry _ = None"

fun decode_table :: "jsval \<Rightarrow> impl_table option" where
  "decode_table (JObj ps) = those (map decode_entry ps)"
| "decode_table _ = None"

end
