(* ===== verification/Implementors.thy ===== *)
theory Implementors
  imports ImplRecord
begin

text \<open>
  The implementor table of src/implementors/core/marker/trait.Unpin.js, the
  object literal bound to \<open>implementors\<close> on lines 1 to 3 of the file, transcribed
  value for value. Each markup string is a definition of its own
  (\<open>actix_text_NN\<close>, \<open>actix_broker_text_NN\<close>, numbered from 1 in source order),
  so that facts about the shape of the table do not unfold the markup; the
  library entries (one source line each) and the object literal are built from
  them. The strings are the JavaScript string literals with their escapes
  resolved: an escaped double quote is a double quote and the newline escape a
  line break. \<open>decode_implementors\<close> reads the literal back as a typed table; it
  is the computation the end-to-end theorem of theory Spec2Isabelle rests on.
\<close>

subsection \<open>Library actix (line 2)\<close>

definition actix_text_01 :: string where
  \<open>actix_text_01 = ''impl <a class="trait" href="https://doc.rust-lang.org/nightly/core/marker/trait.Unpin.html" title="trait core::marker::Unpin">Unpin</a> for <a class="enum" href="actix/prelude/enum.ActorState.html" title="enum actix::prelude::ActorState">ActorState</a>''\<close>

definition actix_text_02 :: string where
  \<open>actix_text_02 = ''impl <a class="trait" href="https://doc.rust-lang.org/nightly/core/marker/trait.Unpin.html" title="trait core::marker::Unpin">Unpin</a> for <a class="enum" href="actix/prelude/enum.Running.html" title="enum actix::prelude::Running">Running</a>''\<close>

definition actix_text_03 :: string where
  \<open>actix_text_03 = ''impl <a class="trait" href="https://doc.rust-lang.org/nightly/core/marker/trait.Unpin.html" title="trait core::marker::Unpin">Unpin</a> for <a class="struct" href="actix/prelude/struct.SpawnHandle.html" title="struct actix::prelude::SpawnHandle">SpawnHandle</a>''\<close>

definition actix_text_04 :: string where
  \<open>actix_text_04 = ''impl&lt;A&gt; <a class="trait" href="https://doc.rust-lang.org/nightly/core/marker/trait.Unpin.html" title="trait core::marker::Unpin">Unpin</a> for <a class="struct" href="actix/prelude/struct.Context.html" title="struct actix::prelude::Context">Context</a>&lt;A&gt;''\<close>

definition actix_text_05 :: string where
  \<open>actix_text_05 = ''impl&lt;A&gt; <a class="trait" href="https://doc.rust-lang.org/nightly/core/marker/trait.Unpin.html" title="trait core::marker::Unpin">Unpin</a> for <a class="struct" href="actix/dev/struct.ContextParts.html" title="struct actix::dev::ContextParts">ContextParts</a>&lt;A&gt;''\<close>

definition actix_text_06 :: string where
  \<open>actix_text_06 = ''impl&lt;A, C&gt; <a class="trait" href="https://doc.rust-lang.org/nightly/core/marker/trait.Unpin.html" title="trait core::marker::Unpin">Unpin</a> for <a class="struct" href="actix/dev/struct.ContextFut.html" title="struct actix::dev::ContextFut">ContextFut</a>&lt;A, C&gt;''\<close>

definition actix_text_07 :: string where
  \<open>actix_text_07 = ''impl&lt;M&gt; <a class="trait" href="https://doc.rust-lang.org/nightly/core/marker/trait.Unpin.html" title="trait core::marker::Unpin">Unpin</a> for <a class="struct" href="actix/prelude/struct.MessageResult.html" title="struct actix::prelude::MessageResult">MessageResult</a>&lt;M&gt;<span class="where fmt-newline">where
    &lt;M as <a class="trait" href="actix/prelude/trait.Message.html" title="trait actix::prelude::Message">Message</a>&gt;::<a class="associatedtype" href="actix/prelude/trait.Message.html#associatedtype.Result" title="type actix::prelude::Message::Result">Result</a>: <a class="trait" href="https://doc.rust-lang.org/nightly/core/marker/trait.Unpin.html" title="trait core::marker::Unpin">Unpin</a>,</span>''\<close>

definition actix_text_08 :: string where
  \<open>actix_text_08 = ''impl&lt;A, T&gt; <a class="trait" href="https://doc.rust-lang.org/nightly/core/marker/trait.Unpin.html" title="trait core::marker::Unpin">Unpin</a> for <a class="struct" href="actix/prelude/struct.AtomicResponse.html" title="struct actix::prelude::AtomicResponse">AtomicResponse</a>&lt;A, T&gt;''\<close>

definition actix_text_09 :: string where
  \<open>actix_text_09 = ''impl&lt;I&gt; <a class="trait" href="https://doc.rust-lang.org/nightly/core/marker/trait.Unpin.html" title="trait core::marker::Unpin">Unpin</a> for <a class="struct" href="actix/prelude/struct.Response.html" title="struct actix::prelude::Response">Response</a>&lt;I&gt;<span class="where fmt-newline">where
    I: <a class="trait" href="https://doc.rust-lang.org/nightly/core/marker/trait.Unpin.html" title="trait core::marker::Unpin">Unpin</a>,</span>''\<close>

definition actix_text_10 :: string where
  \<open>actix_text_10 = ''impl&lt;A, I&gt; <a class="trait" href="https://doc.rust-lang.org/nightly/core/marker/trait.Unpin.html" title="trait core::marker::Unpin">Unpin</a> for <a class="struct" href="actix/prelude/struct.ActorResponse.html" title="struct actix::prelude::ActorResponse">ActorResponse</a>&lt;A, I&gt;<span class="where fmt-newline">where
    I: <a class="trait" href="https://doc.rust-lang.org/nightly/core/marker/trait.Unpin.html" title="trait core::marker::Unpin">Unpin</a>,</span>''\<close>

definition actix_text_11 :: string where
  \<open>actix_text_11 = ''impl&lt;A&gt; <a class="trait" href="https://doc.rust-lang.org/nightly/core/marker/trait.Unpin.html" title="trait core::marker::Unpin">Unpin</a> for <a class="struct" href="actix/dev/channel/struct.AddressSender.html" title="struct actix::dev::channel::AddressSender">AddressSender</a>&lt;A&gt;''\<close>

definition actix_text_12 :: string where
  \<open>actix_text_12 = ''impl&lt;A&gt; <a class="trait" href="https://doc.rust-lang.org/nightly/core/marker/trait.Unpin.html" title="trait core::marker::Unpin">Unpin</a> for <a class="struct" href="actix/dev/channel/struct.AddressReceiver.html" title="struct actix::dev::channel::AddressReceiver">AddressReceiver</a>&lt;A&gt;''\<close>

definition actix_text_13 :: string where
  \<open>actix_text_13 = ''impl&lt;A&gt; <a class="trait" href="https://doc.rust-lang.org/nightly/core/marker/trait.Unpin.html" title="trait core::marker::Unpin">Unpin</a> for <a class="struct" href="actix/dev/struct.Envelope.html" title="struct actix::dev::Envelope">Envelope</a>&lt;A&gt;''\<close>

definition actix_text_14 :: string where
  \<open>actix_text_14 = ''impl&lt;T&gt; <a class="trait" href="https://doc.rust-lang.org/nightly/core/marker/trait.Unpin.html" title="trait core::marker::Unpin">Unpin</a> for <a class="enum" href="actix/prelude/enum.SendError.html" title="enum actix::prelude::SendError">SendError</a>&lt;T&gt;<span class="where fmt-newline">where
    T: <a class="trait" href="https://doc.rust-lang.org/nightly/core/marker/trait.Unpin.html" title="trait core::marker::Unpin">Unpin</a>,</span>''\<close>

definition actix_text_15 :: string where
  \<open>actix_text_15 = ''impl <a class="trait" href="https://doc.rust-lang.org/nightly/core/marker/trait.Unpin.html" title="trait core::marker::Unpin">Unpin</a> for <a class="enum" href="actix/prelude/enum.MailboxError.html" title="enum actix::prelude::MailboxError">MailboxError</a>''\<close>

definition actix_text_16 :: string where
  \<open>actix_text_16 = ''impl&lt;A&gt; <a class="trait" href="https://doc.rust-lang.org/nightly/core/marker/trait.Unpin.html" title="trait core::marker::Unpin">Unpin</a> for <a class="struct" href="actix/prelude/struct.Addr.html" title="struct actix::prelude::Addr">Addr</a>&lt;A&gt;''\<close>

definition actix_text_17 :: string where
  \<open>actix_text_17 = ''impl&lt;A&gt; <a class="trait" href="https://doc.rust-lang.org/nightly/core/marker/trait.Unpin.html" title="trait core::marker::Unpin">Unpin</a> for <a class="struct" href="actix/struct.WeakAddr.html" title="struct actix::WeakAddr">WeakAddr</a>&lt;A&gt;''\<close>

definition actix_text_18 :: string where
  \<open>actix_text_18 = ''impl&lt;M&gt; <a class="trait" href="https://doc.rust-lang.org/nightly/core/marker/trait.Unpin.html" title="trait core::marker::Unpin">Unpin</a> for <a class="struct" href="actix/prelude/struct.Recipient.html" title="struct actix::prelude::Recipient">Recipient</a>&lt;M&gt;''\<close>

definition actix_text_19 :: string where
  \<open>actix_text_19 = ''impl&lt;M&gt; <a class="trait" href="https://doc.rust-lang.org/nightly/core/marker/trait.Unpin.html" title="trait core::marker::Unpin">Unpin</a> for <a class="struct" href="actix/struct.WeakRecipient.html" title="struct actix::WeakRecipient">WeakRecipient</a>&lt;M&gt;''\<close>

definition actix_text_20 :: string where
  \<open>actix_text_20 = ''impl&lt;A&gt; <a class="trait" href="https://doc.rust-lang.org/nightly/core/marker/trait.Unpin.html" title="trait core::marker::Unpin">Unpin</a> for <a class="struct" href="actix/dev/struct.Mailbox.html" title="struct actix::dev::Mailbox">Mailbox</a>&lt;A&gt;''\<close>

definition actix_text_21 :: string where
  \<open>actix_text_21 = ''impl&lt;T&gt; <a class="trait" href="https://doc.rust-lang.org/nightly/core/marker/trait.Unpin.html" title="trait core::marker::Unpin">Unpin</a> for <a class="struct" href="actix/actors/mocker/struct.Mocker.html" title="struct actix::actors::mocker::Mocker">Mocker</a>&lt;T&gt;''\<close>

definition actix_text_22 :: string where
  \<open>actix_text_22 = ''impl&lt;T, E&gt; <a class="trait" href="https://doc.rust-lang.org/nightly/core/marker/trait.Unpin.html" title="trait core::marker::Unpin">Unpin</a> for <a class="struct" href="actix/io/struct.Writer.html" title="struct actix::io::Writer">Writer</a>&lt;T, E&gt;''\<close>

definition actix_text_23 :: string where
  \<open>actix_text_23 = ''impl&lt;I, T, U&gt; <a class="trait" href="https://doc.rust-lang.org/nightly/core/marker/trait.Unpin.html" title="trait core::marker::Unpin">Unpin</a> for <a class="struct" href="actix/io/struct.FramedWrite.html" title="struct actix::io::FramedWrite">FramedWrite</a>&lt;I, T, U&gt;<span class="where fmt-newline">where
    U: <a class="trait" href="https://doc.rust-lang.org/nightly/core/marker/trait.Unpin.html" title="trait core::marker::Unpin">Unpin</a>,</span>''\<close>

definition actix_text_24 :: string where
  \<open>actix_text_24 = ''impl&lt;I, S&gt; <a class="trait" href="https://doc.rust-lang.org/nightly/core/marker/trait.Unpin.html" title="trait core::marker::Unpin">Unpin</a> for <a class="struct" href="actix/io/struct.SinkWrite.html" title="struct actix::io::SinkWrite">SinkWrite</a>&lt;I, S&gt;''\<close>

definition actix_text_25 :: string where
  \<open>actix_text_25 = ''impl <a class="trait" href="https://doc.rust-lang.org/nightly/core/marker/trait.Unpin.html" title="trait core::marker::Unpin">Unpin</a> for <a class="struct" href="actix/registry/struct.Registry.html" title="struct actix::registry::Registry">Registry</a>''\<close>

definition actix_text_26 :: string where
  \<open>actix_text_26 = ''impl <a class="trait" href="https://doc.rust-lang.org/nightly/core/marker/trait.Unpin.html" title="trait core::marker::Unpin">Unpin</a> for <a class="struct" href="actix/registry/struct.SystemRegistry.html" title="struct actix::registry::SystemRegistry">SystemRegistry</a>''\<close>

definition actix_text_27 :: string where
  \<open>actix_text_27 = ''impl&lt;A&gt; <a class="trait" href="https://doc.rust-lang.org/nightly/core/marker/trait.Unpin.html" title="trait core::marker::Unpin">Unpin</a> for <a class="struct" href="actix/sync/struct.SyncArbiter.html" title="struct actix::sync::SyncArbiter">SyncArbiter</a>&lt;A&gt;''\<close>

definition actix_text_28 :: string where
  \<open>actix_text_28 = ''impl&lt;A&gt; <a class="trait" href="https://doc.rust-lang.org/nightly/core/marker/trait.Unpin.html" title="trait core::marker::Unpin">Unpin</a> for <a class="struct" href="actix/sync/struct.SyncContext.html" title="struct actix::sync::SyncContext">SyncContext</a>&lt;A&gt;''\<close>

definition actix_text_29 :: string where
  \<open>actix_text_29 = ''impl&lt;T&gt; <a class="trait" href="https://doc.rust-lang.org/nightly/core/marker/trait.Unpin.html" title="trait core::marker::Unpin">Unpin</a> for <a class="struct" href="actix/utils/struct.Condition.html" title="struct actix::utils::Condition">Condition</a>&lt;T&gt;''\<close>

definition actix_text_30 :: string where
  \<open>actix_text_30 = ''impl&lt;'__pin, Fut, F&gt; <a class="trait" href="https://doc.rust-lang.org/nightly/core/marker/trait.Unpin.html" title="trait core::marker::Unpin">Unpin</a> for <a class="enum" href="actix/fut/try_future/enum.MapErr.html" title="enum actix::fut::try_future::MapErr">MapErr</a>&lt;Fut, F&gt;<span class="where fmt-newline">where
    __Origin&lt;'__pin, Fut, F&gt;: <a class="trait" href="https://doc.rust-lang.org/nightly/core/marker/trait.Unpin.html" title="trait core::marker::Unpin">Unpin</a>,</span>''\<close>

definition actix_text_31 :: string where
  \<open>actix_text_31 = ''impl&lt;'__pin, S&gt; <a class="trait" href="https://doc.rust-lang.org/nightly/core/marker/trait.Unpin.html" title="trait core::marker::Unpin">Unpin</a> for <a class="struct" href="actix/fut/stream/struct.Timeout.html" title="struct actix::fut::stream::Timeout">Timeout</a>&lt;S&gt;<span class="where fmt-newline">where
    __Origin&lt;'__pin, S&gt;: <a class="trait" href="https://doc.rust-lang.org/nightly/core/marker/trait.Unpin.html" title="trait core::marker::Unpin">Unpin</a>,</span>''\<close>

definition actix_text_32 :: string where
  \<open>actix_text_32 = ''impl&lt;'__pin, S, F, Fut&gt; <a class="trait" href="https://doc.rust-lang.org/nightly/core/marker/trait.Unpin.html" title="trait core::marker::Unpin">Unpin</a> for <a class="struct" href="actix/fut/stream/struct.Then.html" title="struct actix::fut::stream::Then">Then</a>&lt;S, F, Fut&gt;<span class="where fmt-newline">where
    __Origin&lt;'__pin, S, F, Fut&gt;: <a class="trait" href="https://doc.rust-lang.org/nightly/core/marker/trait.Unpin.html" title="trait core::marker::Unpin">Unpin</a>,</span>''\<close>

definition actix_text_33 :: string where
  \<open>actix_text_33 = ''impl&lt;'__pin, Fut, F&gt; <a class="trait" href="https://doc.rust-lang.org/nightly/core/marker/trait.Unpin.html" title="trait core::marker::Unpin">Unpin</a> for <a class="enum" href="actix/fut/future/enum.Map.html" title="enum actix::fut::future::Map">Map</a>&lt;Fut, F&gt;<span class="where fmt-newline">where
    __Origin&lt;'__pin, Fut, F&gt;: <a class="trait" href="https://doc.rust-lang.org/nightly/core/marker/trait.Unpin.html" title="trait core::marker::Unpin">Unpin</a>,</span>''\<close>

definition actix_text_34 :: string where
  \<open>actix_text_34 = ''impl&lt;'__pin, F&gt; <a class="trait" href="https://doc.rust-lang.org/nightly/core/marker/trait.Unpin.html" title="trait core::marker::Unpin">Unpin</a> for <a class="struct" href="actix/fut/future/struct.Timeout.html" title="struct actix::fut::future::Timeout">Timeout</a>&lt;F&gt;<span class="where fmt-newline">where
    __Origin&lt;'__pin, F&gt;: <a class="trait" href="https://doc.rust-lang.org/nightly/core/marker/trait.Unpin.html" title="trait core::marker::Unpin">Unpin</a>,</span>''\<close>

definition actix_text_35 :: string where
  \<open>actix_text_35 = ''impl&lt;'__pin, S, F&gt; <a class="trait" href="https://doc.rust-lang.org/nightly/core/marker/trait.Unpin.html" title="trait core::marker::Unpin">Unpin</a> for <a class="struct" href="actix/fut/stream/struct.Map.html" title="struct actix::fut::stream::Map">Map</a>&lt;S, F&gt;<span class="where fmt-newline">where
    __Origin&lt;'__pin, S, F&gt;: <a class="trait" href="https://doc.rust-lang.org/nightly/core/marker/trait.Unpin.html" title="trait core::marker::Unpin">Unpin</a>,</span>''\<close>

definition actix_text_36 :: string where
  \<open>actix_text_36 = ''impl&lt;'__pin, Fut, F&gt; <a class="trait" href="https://doc.rust-lang.org/nightly/core/marker/trait.Unpin.html" title="trait core::marker::Unpin">Unpin</a> for <a class="enum" href="actix/fut/try_future/enum.MapOk.html" title="enum actix::fut::try_future::MapOk">MapOk</a>&lt;Fut, F&gt;<span class="where fmt-newline">where
    __Origin&lt;'__pin, Fut, F&gt;: <a class="trait" href="https://doc.rust-lang.org/nightly/core/marker/trait.Unpin.html" title="trait core::marker::Unpin">Unpin</a>,</span>''\<close>

definition actix_text_37 :: string where
  \<open>actix_text_37 = ''impl&lt;'__pin, F, A&gt; <a class="trait" href="https://doc.rust-lang.org/nightly/core/marker/trait.Unpin.html" title="trait core::marker::Unpin">Unpin</a> for <a class="struct" href="actix/fut/future/struct.FutureWrap.html" title="struct actix::fut::future::FutureWrap">FutureWrap</a>&lt;F, A&gt;<span class="where fmt-newline">where
    __Origin&lt;'__pin, F, A&gt;: <a class="trait" href="https://doc.rust-lang.org/nightly/core/marker/trait.Unpin.html" title="trait core::marker::Unpin">Unpin</a>,
    F: <a class="trait" href="https://doc.rust-lang.org/nightly/core/future/future/trait.Future.html" title="trait core::future::future::Future">Future</a>,
    A: <a class="trait" href="actix/prelude/trait.Actor.html" title="trait actix::prelude::Actor">Actor</a>,</span>''\<close>

definition actix_text_38 :: string where
  \<open>actix_text_38 = ''impl&lt;'__pin, S, C&gt; <a class="trait" href="https://doc.rust-lang.org/nightly/core/marker/trait.Unpin.html" title="trait core::marker::Unpin">Unpin</a> for <a class="struct" href="actix/fut/stream/struct.Collect.html" title="struct actix::fut::stream::Collect">Collect</a>&lt;S, C&gt;<span class="where fmt-newline">where
    __Origin&lt;'__pin, S, C&gt;: <a class="trait" href="https://doc.rust-lang.org/nightly/core/marker/trait.Unpin.html" title="trait core::marker::Unpin">Unpin</a>,</span>''\<close>

definition actix_text_39 :: string where
  \<open>actix_text_39 = ''impl&lt;'__pin, S, F, Fut, T&gt; <a class="trait" href="https://doc.rust-lang.org/nightly/core/marker/trait.Unpin.html" title="trait core::marker::Unpin">Unpin</a> for <a class="struct" href="actix/fut/stream/struct.Fold.html" title="struct actix::fut::stream::Fold">Fold</a>&lt;S, F, Fut, T&gt;<span class="where fmt-newline">where
    __Origin&lt;'__pin, S, F, Fut, T&gt;: <a class="trait" href="https://doc.rust-lang.org/nightly/core/marker/trait.Unpin.html" title="trait core::marker::Unpin">Unpin</a>,</span>''\<close>

definition actix_text_40 :: string where
  \<open>actix_text_40 = ''impl&lt;'__pin, S, A&gt; <a class="trait" href="https://doc.rust-lang.org/nightly/core/marker/trait.Unpin.html" title="trait core::marker::Unpin">Unpin</a> for <a class="struct" href="actix/fut/stream/struct.StreamWrap.html" title="struct actix::fut::stream::StreamWrap">StreamWrap</a>&lt;S, A&gt;<span class="where fmt-newline">where
    __Origin&lt;'__pin, S, A&gt;: <a class="trait" href="https://doc.rust-lang.org/nightly/core/marker/trait.Unpin.html" title="trait core::marker::Unpin">Unpin</a>,
    S: <a class="trait" href="actix/prelude/trait.Stream.html" title="trait actix::prelude::Stream">Stream</a>,
    A: <a class="trait" href="actix/prelude/trait.Actor.html" title="trait actix::prelude::Actor">Actor</a>,</span>''\<close>

definition actix_text_41 :: string where
  \<open>actix_text_41 = ''impl&lt;'__pin, A: <a class="trait" href="actix/prelude/trait.Actor.html" title="trait actix::prelude::Actor">Actor</a>&gt; <a class="trait" href="https://doc.rust-lang.org/nightly/core/marker/trait.Unpin.html" title="trait core::marker::Unpin">Unpin</a> for <a class="struct" href="actix/utils/struct.IntervalFunc.html" title="struct actix::utils::IntervalFunc">IntervalFunc</a>&lt;A&gt;<span class="where fmt-newline">where
    __Origin&lt;'__pin, A&gt;: <a class="trait" href="https://doc.rust-lang.org/nightly/core/marker/trait.Unpin.html" title="trait core::marker::Unpin">Unpin</a>,</span>''\<close>

definition actix_text_42 :: string where
  \<open>actix_text_42 = ''impl&lt;'__pin, A: <a class="trait" href="actix/prelude/trait.Actor.html" title="trait actix::prelude::Actor">Actor</a>&gt; <a class="trait" href="https://doc.rust-lang.org/nightly/core/marker/trait.Unpin.html" title="trait core::marker::Unpin">Unpin</a> for <a class="struct" href="actix/utils/struct.TimerFunc.html" title="struct actix::utils::TimerFunc">TimerFunc</a>&lt;A&gt;<span class="where fmt-newline">where
    __Origin&lt;'__pin, A&gt;: <a class="trait" href="https://doc.rust-lang.org/nightly/core/marker/trait.Unpin.html" title="trait core::marker::Unpin">Unpin</a>,</span>''\<close>

definition actix_text_43 :: string where
  \<open>actix_text_43 = ''impl&lt;'__pin, S, I, F, Fut&gt; <a class="trait" href="https://doc.rust-lang.org/nightly/core/marker/trait.Unpin.html" title="trait core::marker::Unpin">Unpin</a> for <a class="struct" href="actix/fut/stream/struct.SkipWhile.html" title="struct actix::fut::stream::SkipWhile">SkipWhile</a>&lt;S, I, F, Fut&gt;<span class="where fmt-newline">where
    __Origin&lt;'__pin, S, I, F, Fut&gt;: <a class="trait" href="https://doc.rust-lang.org/nightly/core/marker/trait.Unpin.html" title="trait core::marker::Unpin">Unpin</a>,</span>''\<close>

definition actix_text_44 :: string where
  \<open>actix_text_44 = ''impl&lt;'__pin, A&gt; <a class="trait" href="https://doc.rust-lang.org/nightly/core/marker/trait.Unpin.html" title="trait core::marker::Unpin">Unpin</a> for <a class="struct" href="actix/prelude/struct.Supervisor.html" title="struct actix::prelude::Supervisor">Supervisor</a>&lt;A&gt;<span class="where fmt-newline">where
    __Origin&lt;'__pin, A&gt;: <a class="trait" href="https://doc.rust-lang.org/nightly/core/marker/trait.Unpin.html" title="trait core::marker::Unpin">Unpin</a>,
    A: <a class="trait" href="actix/prelude/trait.Supervised.html" title="trait actix::prelude::Supervised">Supervised</a> + <a class="trait" href="actix/prelude/trait.Actor.html" title="trait actix::prelude::Actor">Actor</a>&lt;Context = <a class="struct" href="actix/prelude/struct.Context.html" title="struct actix::prelude::Context">Context</a>&lt;A&gt;&gt;,</span>''\<close>

definition actix_text_45 :: string where
  \<open>actix_text_45 = ''impl&lt;'__pin, S&gt; <a class="trait" href="https://doc.rust-lang.org/nightly/core/marker/trait.Unpin.html" title="trait core::marker::Unpin">Unpin</a> for <a class="struct" href="actix/fut/stream/struct.Finish.html" title="struct actix::fut::stream::Finish">Finish</a>&lt;S&gt;<span class="where fmt-newline">where
    __Origin&lt;'__pin, S&gt;: <a class="trait" href="https://doc.rust-lang.org/nightly/core/marker/trait.Unpin.html" title="trait core::marker::Unpin">Unpin</a>,</span>''\<close>

definition actix_text_46 :: string where
  \<open>actix_text_46 = ''impl&lt;'__pin, A, B, F&gt; <a class="trait" href="https://doc.rust-lang.org/nightly/core/marker/trait.Unpin.html" title="trait core::marker::Unpin">Unpin</a> for <a class="enum" href="actix/fut/future/enum.Then.html" title="enum actix::fut::future::Then">Then</a>&lt;A, B, F&gt;<span class="where fmt-newline">where
    __Origin&lt;'__pin, A, B, F&gt;: <a class="trait" href="https://doc.rust-lang.org/nightly/core/marker/trait.Unpin.html" title="trait core::marker::Unpin">Unpin</a>,</span>''\<close>

definition actix_text_47 :: string where
  \<open>actix_text_47 = ''impl&lt;'__pin, A, B, F&gt; <a class="trait" href="https://doc.rust-lang.org/nightly/core/marker/trait.Unpin.html" title="trait core::marker::Unpin">Unpin</a> for <a class="enum" href="actix/fut/try_future/enum.AndThen.html" title="enum actix::fut::try_future::AndThen">AndThen</a>&lt;A, B, F&gt;<span class="where fmt-newline">where
    __Origin&lt;'__pin, A, B, F&gt;: <a class="trait" href="https://doc.rust-lang.org/nightly/core/marker/trait.Unpin.html" title="trait core::marker::Unpin">Unpin</a>,</span>''\<close>

definition actix_text_48 :: string where
  \<open>actix_text_48 = ''impl&lt;'__pin, S, I, F, Fut&gt; <a class="trait" href="https://doc.rust-lang.org/nightly/core/marker/trait.Unpin.html" title="trait core::marker::Unpin">Unpin</a> for <a class="struct" href="actix/fut/stream/struct.TakeWhile.html" title="struct actix::fut::stream::TakeWhile">TakeWhile</a>&lt;S, I, F, Fut&gt;<span class="where fmt-newline">where
    __Origin&lt;'__pin, S, I, F, Fut&gt;: <a class="trait" href="https://doc.rust-lang.org/nightly/core/marker/trait.Unpin.html" title="trait core::marker::Unpin">Unpin</a>,</span>''\<close>

definition implementors_actix :: jsval where
  \<open>implementors_actix = JArr [
    JArr [JStr actix_text_01, JNum 1, JArr [JStr ''actix::actor::ActorState'']],
    JArr [JStr actix_text_02, JNum 1, JArr [JStr ''actix::actor::Running'']],
    JArr [JStr actix_text_03, JNum 1, JArr [JStr ''actix::actor::SpawnHandle'']],
    JArr [JStr actix_text_04, JNum 1, JArr [JStr ''actix::context::Context'']],
    JArr [JStr actix_text_05, JNum 1, JArr [JStr ''actix::contextimpl::ContextParts'']],
    JArr [JStr actix_text_06, JNum 1, JArr [JStr ''actix::contextimpl::ContextFut'']],
    JArr [JStr actix_text_07, JNum 1, JArr [JStr ''actix::handler::MessageResult'']],
    JArr [JStr actix_text_08, JNum 1, JArr [JStr ''actix::handler::AtomicResponse'']],
    JArr [JStr actix_text_09, JNum 1, JArr [JStr ''actix::handler::Response'']],
    JArr [JStr actix_text_10, JNum 1, JArr [JStr ''actix::handler::ActorResponse'']],
    JArr [JStr actix_text_11, JNum 1, JArr [JStr ''actix::address::channel::AddressSender'']],
    JArr [JStr actix_text_12, JNum 1, JArr [JStr ''actix::address::channel::AddressReceiver'']],
    JArr [JStr actix_text_13, JNum 1, JArr [JStr ''actix::address::envelope::Envelope'']],
    JArr [JStr actix_text_14, JNum 1, JArr [JStr ''actix::address::SendError'']],
    JArr [JStr actix_text_15, JNum 1, JArr [JStr ''actix::address::MailboxError'']],
    JArr [JStr actix_text_16, JNum 1, JArr [JStr ''actix::address::Addr'']],
    JArr [JStr actix_text_17, JNum 1, JArr [JStr ''actix::address::WeakAddr'']],
    JArr [JStr actix_text_18, JNum 1, JArr [JStr ''actix::address::Recipient'']],
    JArr [JStr actix_text_19, JNum 1, JArr [JStr ''actix::address::WeakRecipient'']],
    JArr [JStr actix_text_20, JNum 1, JArr [JStr ''actix::mailbox::Mailbox'']],
    JArr [JStr actix_text_21, JNum 1, JArr [JStr ''actix::actors::mocker::Mocker'']],
    JArr [JStr actix_text_22, JNum 1, JArr [JStr ''actix::io::Writer'']],
    JArr [JStr actix_text_23, JNum 1, JArr [JStr ''actix::io::FramedWrite'']],
    JArr [JStr actix_text_24, JNum 1, JArr [JStr ''actix::io::SinkWrite'']],
    JArr [JStr actix_text_25, JNum 1, JArr [JStr ''actix::registry::Registry'']],
    JArr [JStr actix_text_26, JNum 1, JArr [JStr ''actix::registry::SystemRegistry'']],
    JArr [JStr actix_text_27, JNum 1, JArr [JStr ''actix::sync::SyncArbiter'']],
    JArr [JStr actix_text_28, JNum 1, JArr [JStr ''actix::sync::SyncContext'']],
    JArr [JStr actix_text_29, JNum 1, JArr [JStr ''actix::utils::Condition'']],
    JArr [JStr actix_text_30],
    JArr [JStr actix_text_31],
    JArr [JStr actix_text_32],
    JArr [JStr actix_text_33],
    JArr [JStr actix_text_34],
    JArr [JStr actix_text_35],
    JArr [JStr actix_text_36],
    JArr [JStr actix_text_37],
    JArr [JStr actix_text_38],
    JArr [JStr actix_text_39],
    JArr [JStr actix_text_40],
    JArr [JStr actix_text_41],
    JArr [JStr actix_text_42],
    JArr [JStr actix_text_43],
    JArr [JStr actix_text_44],
    JArr [JStr actix_text_45],
    JArr [JStr actix_text_46],
    JArr [JStr actix_text_47],
    JArr [JStr actix_text_48]]\<close>

subsection \<open>Library actix_broker (line 3)\<close>

definition actix_broker_text_01 :: string where
  \<open>actix_broker_text_01 = ''impl&lt;T&gt; <a class="trait" href="https://doc.rust-lang.org/nightly/core/marker/trait.Unpin.html" title="trait core::marker::Unpin">Unpin</a> for <a class="struct" href="actix_broker/struct.Broker.html" title="struct actix_broker::Broker">Broker</a>&lt;T&gt;<span class="where fmt-newline">where
    T: <a class="trait" href="https://doc.rust-lang.org/nightly/core/marker/trait.Unpin.html" title="trait core::marker::Unpin">Unpin</a>,</span>''\<close>

definition actix_broker_text_02 :: string where
  \<open>actix_broker_text_02 = ''impl <a class="trait" href="https://doc.rust-lang.org/nightly/core/marker/trait.Unpin.html" title="trait core::marker::Unpin">Unpin</a> for <a class="struct" href="actix_broker/struct.SystemBroker.html" title="struct actix_broker::SystemBroker">SystemBroker</a>''\<close>

definition actix_broker_text_03 :: string where
  \<open>actix_broker_text_03 = ''impl <a class="trait" href="https://doc.rust-lang.org/nightly/core/marker/trait.Unpin.html" title="trait core::marker::Unpin">Unpin</a> for <a class="struct" href="actix_broker/struct.ArbiterBroker.html" title="struct actix_broker::ArbiterBroker">ArbiterBroker</a>''\<close>

definition implementors_actix_broker :: jsval where
  \<open>implementors_actix_broker = JArr [
    JArr [JStr actix_broker_text_01, JNum 1, JArr [JStr ''actix_broker::broker::Broker'']],
    JArr [JStr actix_broker_text_02, JNum 1, JArr [JStr ''actix_broker::broker::SystemBroker'']],
    JArr [JStr actix_broker_text_03, JNum 1, JArr [JStr ''actix_broker::broker::ArbiterBroker'']]]\<close>

subsection \<open>The table\<close>

definition implementors :: jsval where
  "implementors = obj_literal
     [(''actix'', implementors_actix), (''actix_broker'', implementors_actix_broker)]"

subsection \<open>The table read as typed records\<close>

lemmas implementors_unfold =
  implementors_def implementors_actix_def implementors_actix_broker_def obj_literal_def

text \<open>The literal decodes, shape by shape, to the following typed table; the facts
  below are read off it.\<close>

lemma decode_implementors:
  "decode_table implementors = Some [
     (''actix'', [
       ImplFlagged actix_text_01 1 [''actix::actor::ActorState''],
       ImplFlagged actix_text_02 1 [''actix::actor::Running''],
       ImplFlagged actix_text_03 1 [''actix::actor::SpawnHandle''],
       ImplFlagged actix_text_04 1 [''actix::context::Context''],
       ImplFlagged actix_text_05 1 [''actix::contextimpl::ContextParts''],
       ImplFlagged actix_text_06 1 [''actix::contextimpl::ContextFut''],
       ImplFlagged actix_text_07 1 [''actix::handler::MessageResult''],
       ImplFlagged actix_text_08 1 [''actix::handler::AtomicResponse''],
       ImplFlagged actix_text_09 1 [''actix::handler::Response''],
       ImplFlagged actix_text_10 1 [''actix::handler::ActorResponse''],
       ImplFlagged actix_text_11 1 [''actix::address::channel::AddressSender''],
       ImplFlagged actix_text_12 1 [''actix::address::channel::AddressReceiver''],
       ImplFlagged actix_text_13 1 [''actix::address::envelope::Envelope''],
       ImplFlagged actix_text_14 1 [''actix::address::SendError''],
       ImplFlagged actix_text_15 1 [''actix::address::MailboxError''],
       ImplFlagged actix_text_16 1 [''actix::address::Addr''],
       ImplFlagged actix_text_17 1 [''actix::address::WeakAddr''],
       ImplFlagged actix_text_18 1 [''actix::address::Recipient''],
       ImplFlagged actix_text_19 1 [''actix::address::WeakRecipient''],
       ImplFlagged actix_text_20 1 [''actix::mailbox::Mailbox''],
       ImplFlagged actix_text_21 1 [''actix::actors::mocker::Mocker''],
       ImplFlagged actix_text_22 1 [''actix::io::Writer''],
       ImplFlagged actix_text_23 1 [''actix::io::FramedWrite''],
       ImplFlagged actix_text_24 1 [''actix::io::SinkWrite''],
       ImplFlagged actix_text_25 1 [''actix::registry::Registry''],
       ImplFlagged actix_text_26 1 [''actix::registry::SystemRegistry''],
       ImplFlagged actix_text_27 1 [''actix::sync::SyncArbiter''],
       ImplFlagged actix_text_28 1 [''actix::sync::SyncContext''],
       ImplFlagged actix_text_29 1 [''actix::utils::Condition''],
       ImplText actix_text_30,
       ImplText actix_text_31,
       ImplText actix_text_32,
       ImplText actix_text_33,
       ImplText actix_text_34,
       ImplText actix_text_35,
       ImplText actix_text_36,
       ImplText actix_text_37,
       ImplText actix_text_38,
       ImplText actix_text_39,
       ImplText actix_text_40,
       ImplText actix_text_41,
       ImplText actix_text_42,
       ImplText actix_text_43,
       ImplText actix_text_44,
       ImplText actix_text_45,
       ImplText actix_text_46,
       ImplText actix_text_47,
       ImplText actix_text_48]),
     (''actix_broker'', [
       ImplFlagged actix_broker_text_01 1 [''actix_broker::broker::Broker''],
       ImplFlagged actix_broker_text_02 1 [''actix_broker::broker::SystemBroker''],
       ImplFlagged actix_broker_text_03 1 [''actix_broker::broker::ArbiterBroker'']])]"
  by (simp add: implementors_unfold)

end
