(* ===== verification/Loader.thy ===== *)
theory Loader
  imports Implementors
begin

text \<open>
  The code of src/implementors/core/marker/trait.Unpin.js, line 4:
  \<^verbatim>\<open>if (window.register_implementors) {window.register_implementors(implementors);}
else {window.pending_implementors = implementors;}\<close>
  run inside an immediately invoked function after \<open>implementors\<close> is bound.

  The page is a record: whether the global binding \<open>window\<close> exists (it does in a
  browser, not in a worker or under Node), the own properties of \<open>window\<close> in
  insertion order, and the log of calls into host functions, which is how a call
  of the hook is observed. What a host function does is the parameter \<open>host\<close>:
  given its identifier, its arguments and the properties of \<open>window\<close>, it returns
  the new properties and possibly a thrown value. An exception does not roll back
  what was done before it, so every operation returns the page and an optional
  exception. The prototype chain of \<open>window\<close> and accessor properties are not
  modelled: a property read is a lookup in the own properties, so the two reads of
  \<open>window.register_implementors\<close> on line 4 see the same value.
\<close>

record page =
  window_defined :: bool
  globals :: "jsval props"
  calls :: "(nat \<times> jsval list) list"

type_synonym host = "nat \<Rightarrow> jsval list \<Rightarrow> jsval props \<Rightarrow> jsval props \<times> jsval option"

type_synonym outcome = "page \<times> exn option"

text \<open>\<open>window.x\<close> as an expression, and \<open>window.x = v\<close> as a statement.\<close>

definition global_get :: "page \<Rightarrow> string \<Rightarrow> jsval" where
  "global_get p k = (case map_of (globals p) k of None \<Rightarrow> JUndefined | Some v \<Rightarrow> v)"

definition global_set :: "string \<Rightarrow> jsval \<Rightarrow> page \<Rightarrow> page" where
  "global_set k v p = p\<lparr>globals := prop_put k v (globals p)\<rparr>"

text \<open>A call \<open>f(args)\<close>, \<open>name\<close> being the callee's text for the engine's error
  message: a value that is not a function raises TypeError; a function call is
  logged, then runs the host's behaviour.\<close>

definition js_call :: "host \<Rightarrow> string \<Rightarrow> jsval \<Rightarrow> jsval list \<Rightarrow> page \<Rightarrow> outcome" where
  "js_call host name f args p =
     (case f of
        JFun i \<Rightarrow>
          (let p' = p\<lparr>calls := calls p @ [(i, args)]\<rparr>;
               (g, r) = host i args (globals p')
           in (p'\<lparr>globals := g\<rparr>, map_option Thrown r))
      | _ \<Rightarrow> (p, Some (TypeError (name @ '' is not a function''))))"

abbreviation hook_name :: string where
  "hook_name \<equiv> ''register_implementors''"

abbreviation pending_name :: string where
  "pending_name \<equiv> ''pending_implementors''"

text \<open>The dispatch of line 4, for any value of \<open>implementors\<close>; evaluating the
  identifier \<open>window\<close> where it is not bound raises ReferenceError.\<close>

definition load_fragment :: "host \<Rightarrow> jsval \<Rightarrow> page \<Rightarrow> outcome" where
  "load_fragment host imp p =
     (if \<not> window_defined p then (p, Some (ReferenceError ''window is not defined''))
      else if truthy (global_get p hook_name)
      then js_call host ''window.register_implementors'' (global_get p hook_name) [imp] p
      else (global_set pending_name imp p, None))"

text \<open>The whole script: bind the table, then dispatch.\<close>

definition run_unpin_fragment :: "host \<Rightarrow> page \<Rightarrow> outcome" where
  "run_unpin_fragment host p = load_fragment host implementors p"

subsection \<open>Reading and writing globals\<close>

lemma global_get_set [js_simps]:
  "global_get (global_set k v p) k' = (if k' = k then v else global_get p k')"
  by (simp add: global_get_def global_set_def map_of_prop_put)

lemma global_set_fields [js_simps]:
  "window_defined (global_set k v p) = window_defined p"
  "calls (global_set k v p) = calls p"
  by (simp_all add: global_set_def)

lemma global_get_calls_update [js_simps]:
  "global_get (p\<lparr>calls := cs\<rparr>) k = global_get p k"
  by (simp add: global_get_def)

lemma js_call_JFun:
  "js_call host name (JFun i) args p =
     (p\<lparr>calls := calls p @ [(i, args)], globals := fst (host i args (globals p))\<rparr>,
      map_option Thrown (snd (host i args (globals p))))"
  by (simp add: js_call_def split: prod.splits)

lemma js_call_not_fun:
  "\<not> is_function f \<Longrightarrow>
     js_call host name f args p = (p, Some (TypeError (name @ '' is not a function'')))"
  by (cases f) (simp_all add: js_call_def)

subsection \<open>The branches of the dispatch\<close>

lemma load_fragment_no_window:
  "\<not> window_defined p \<Longrightarrow>
     load_fragment host imp p = (p, Some (ReferenceError ''window is not defined''))"
  by (simp add: load_fragment_def)

lemma load_fragment_falsy:
  "window_defined p \<Longrightarrow> \<not> truthy (global_get p hook_name) \<Longrightarrow>
     load_fragment host imp p = (global_set pending_name imp p, None)"
  by (simp add: load_fragment_def)

lemma load_fragment_fun:
  "window_defined p \<Longrightarrow> global_get p hook_name = JFun i \<Longrightarrow>
     load_fragment host imp p = js_call host ''window.register_implementors'' (JFun i) [imp] p"
  by (simp add: load_fragment_def)

lemmas load_fragment_branches = load_fragment_no_window load_fragment_falsy load_fragment_fun

text \<open>C1: with no hook installed (the property missing or falsy), the fragment
  stores the table in \<open>window.pending_implementors\<close>, raises nothing, calls
  nothing and changes no other property of \<open>window\<close>.\<close>

theorem load_fragment_stash:
  assumes "window_defined p" and "\<not> truthy (global_get p hook_name)"
    and "load_fragment host imp p = (p', e)"
  shows "e = None \<and> global_get p' pending_name = imp \<and> calls p' = calls p \<and>
    window_defined p' \<and> (\<forall>k. k \<noteq> pending_name \<longrightarrow> global_get p' k = global_get p k)"
  using assms by (auto simp: load_fragment_falsy js_simps)

text \<open>C2: with a function installed as hook, the fragment calls it once with the
  table as its only argument; the page is then what the hook makes of it, and an
  exception of the hook propagates unchanged.\<close>

theorem load_fragment_calls_hook:
  assumes "window_defined p" and "global_get p hook_name = JFun i"
  shows "load_fragment host imp p =
    (p\<lparr>calls := calls p @ [(i, [imp])], globals := fst (host i [imp] (globals p))\<rparr>,
     map_option Thrown (snd (host i [imp] (globals p))))"
  using assms by (simp add: load_fragment_fun js_call_JFun)

text \<open>C3: the fragment itself raises only two errors, and both leave the page as
  it was: ReferenceError where \<open>window\<close> is not bound, and TypeError where the
  hook is truthy but not a function (\<open>true\<close>, a number, a string, an object).
  Any other exception is a value thrown by the hook, after it was called.\<close>

theorem load_fragment_errors:
  assumes "load_fragment host imp p = (p', Some err)"
  shows "(err = ReferenceError ''window is not defined'' \<and> p' = p \<and> \<not> window_defined p)
    \<or> (err = TypeError ''window.register_implementors is not a function'' \<and> p' = p \<and>
       truthy (global_get p hook_name) \<and> \<not> is_function (global_get p hook_name))
    \<or> (\<exists>i v. err = Thrown v \<and> global_get p hook_name = JFun i \<and>
       calls p' = calls p @ [(i, [imp])] \<and> snd (host i [imp] (globals p)) = Some v)"
proof (cases "window_defined p")
  case False
  with assms show ?thesis by (simp add: load_fragment_no_window)
next
  case win: True
  show ?thesis
  proof (cases "global_get p hook_name")
    case (JFun i)
    with assms win show ?thesis by (auto simp: load_fragment_fun js_call_JFun)
  qed (use assms win in \<open>auto simp: load_fragment_def js_call_def split: if_splits\<close>)
qed

text \<open>C4: the pending slot is overwritten, not accumulated: after two loads with
  no hook it holds the second table, the second load adds no property to
  \<open>window\<close>, and neither raises.\<close>

theorem load_fragment_overwrite:
  assumes "window_defined p" and "\<not> truthy (global_get p hook_name)"
    and "load_fragment host t1 p = (p1, e1)" and "load_fragment host t2 p1 = (p2, e2)"
  shows "global_get p2 pending_name = t2 \<and> prop_keys (globals p2) = prop_keys (globals p1)
    \<and> e1 = None \<and> e2 = None"
proof -
  from assms(1-3) have p1: "p1 = global_set pending_name t1 p" and e1: "e1 = None"
    by (simp_all add: load_fragment_falsy)
  with assms(1,2) have "window_defined p1" and "\<not> truthy (global_get p1 hook_name)"
    by (simp_all add: js_simps)
  with assms(4) have "p2 = global_set pending_name t2 p1" and "e2 = None"
    by (simp_all add: load_fragment_falsy)
  with p1 e1 show ?thesis
    by (simp add: global_set_def global_get_def js_simps)
qed

end
