(* ===== verification/Shell.thy ===== *)
theory Shell
  imports Loader
begin

text \<open>
  The other side of the hand-over. The page shell is not in this repository; it
  is modelled from the spec (sections 3, 5 and 6): when it initialises it
  installs the registration hook on \<open>window\<close>, then reads the pending slot and,
  when it holds a table, clears it and calls the hook with it. A page runs the
  shell and any number of implementor fragments as separate scripts in some
  order; an exception ends its own script, not the page. \<open>page_run\<close> runs a list
  of such events and collects the exceptions; \<open>reachable\<close> is the set of pages
  some order of events reaches.
\<close>

definition shell_init :: "host \<Rightarrow> nat \<Rightarrow> page \<Rightarrow> outcome" where
  "shell_init host fid p =
     (if \<not> window_defined p then (p, Some (ReferenceError ''window is not defined''))
      else
        (let p1 = global_set hook_name (JFun fid) p;
             pend = global_get p1 pending_name
         in if truthy pend
            then js_call host ''window.register_implementors'' (JFun fid) [pend]
                   (global_set pending_name JUndefined p1)
            else (p1, None)))"

datatype event = Fragment jsval | ShellReady nat

fun page_step :: "host \<Rightarrow> page \<Rightarrow> event \<Rightarrow> outcome" where
  "page_step host p (Fragment t) = load_fragment host t p"
| "page_step host p (ShellReady fid) = shell_init host fid p"

fun page_run :: "host \<Rightarrow> page \<Rightarrow> event list \<Rightarrow> page \<times> exn list" where
  "page_run host p [] = (p, [])"
| "page_run host p (ev # evs) =
     (case page_step host p ev of
        (p', e) \<Rightarrow> (case page_run host p' evs of
           (p'', es) \<Rightarrow> (p'', (case e of None \<Rightarrow> [] | Some x \<Rightarrow> [x]) @ es)))"

fun loads :: "event list \<Rightarrow> jsval list" where
  "loads [] = []"
| "loads (Fragment t # evs) = t # loads evs"
| "loads (ShellReady _ # evs) = loads evs"

fun is_shell_ready :: "event \<Rightarrow> bool" where
  "is_shell_ready (ShellReady _) = True"
| "is_shell_ready (Fragment _) = False"

inductive reachable :: "host \<Rightarrow> page \<Rightarrow> page \<Rightarrow> bool" for host p0 where
  init: "reachable host p0 p0"
| step: "reachable host p0 p \<Longrightarrow> page_step host p ev = (p', e) \<Longrightarrow> reachable host p0 p'"

text \<open>A hook that keeps the two slots of the protocol: it may do anything to
  \<open>window\<close> but replace itself or write the pending slot.\<close>

definition host_keeps_slots :: "host \<Rightarrow> bool" where
  "host_keeps_slots host \<longleftrightarrow>
     (\<forall>i a g. map_of (fst (host i a g)) hook_name = map_of g hook_name \<and>
              map_of (fst (host i a g)) pending_name = map_of g pending_name)"

text \<open>The protocol invariant: a truthy hook is a function and the pending slot is
  then empty; while no hook is installed no host function has been called.\<close>

definition page_inv :: "page \<Rightarrow> page \<Rightarrow> bool" where
  "page_inv p0 p \<longleftrightarrow>
     window_defined p = window_defined p0 \<and>
     (truthy (global_get p hook_name) \<longrightarrow>
        is_function (global_get p hook_name) \<and> \<not> truthy (global_get p pending_name)) \<and>
     (\<not> truthy (global_get p hook_name) \<longrightarrow> calls p = calls p0)"

inductive_cases reachable_stepE: "reachable host p0 p'"

subsection \<open>One step keeps the protocol invariant\<close>

lemma global_get_host_result:
  assumes "host_keeps_slots host" and "k = hook_name \<or> k = pending_name"
  shows "global_get (p\<lparr>calls := cs, globals := fst (host i a (globals p))\<rparr>) k = global_get p k"
  using assms by (auto simp: host_keeps_slots_def global_get_def)

lemma shell_init_truthy:
  assumes "window_defined p" and "truthy (global_get p pending_name)"
  shows "shell_init host fid p =
    js_call host ''window.register_implementors'' (JFun fid) [global_get p pending_name]
      (global_set pending_name JUndefined (global_set hook_name (JFun fid) p))"
  using assms by (simp add: shell_init_def Let_def js_simps)

lemma shell_init_falsy:
  assumes "window_defined p" and "\<not> truthy (global_get p pending_name)"
  shows "shell_init host fid p = (global_set hook_name (JFun fid) p, None)"
  using assms by (simp add: shell_init_def Let_def js_simps)

lemma shell_init_no_window:
  "\<not> window_defined p \<Longrightarrow> shell_init host fid p = (p, Some (ReferenceError ''window is not defined''))"
  by (simp add: shell_init_def)

lemmas shell_init_branches = shell_init_truthy shell_init_falsy shell_init_no_window

lemma load_fragment_inv:
  assumes keeps: "host_keeps_slots host" and inv: "page_inv p0 p"
    and st: "load_fragment host t p = (p', e)"
  shows "page_inv p0 p'"
proof (cases "window_defined p \<and> truthy (global_get p hook_name)")
  case True
  with inv obtain i where i: "global_get p hook_name = JFun i"
    by (cases "global_get p hook_name") (auto simp: page_inv_def)
  with True st have "p' = p\<lparr>calls := calls p @ [(i, [t])], globals := fst (host i [t] (globals p))\<rparr>"
    by (simp add: load_fragment_fun js_call_JFun)
  with True inv i keeps show ?thesis
    by (simp add: page_inv_def global_get_host_result)
next
  case False
  with inv st show ?thesis
    by (cases "window_defined p") (auto simp: page_inv_def load_fragment_branches js_simps)
qed

lemma shell_init_inv:
  assumes keeps: "host_keeps_slots host" and inv: "page_inv p0 p"
    and st: "shell_init host fid p = (p', e)"
  shows "page_inv p0 p'"
proof (cases "window_defined p \<and> truthy (global_get p pending_name)")
  case True
  let ?q = "global_set pending_name JUndefined (global_set hook_name (JFun fid) p)"
  from True st have "p' = ?q\<lparr>calls := calls ?q @ [(fid, [global_get p pending_name])],
      globals := fst (host fid [global_get p pending_name] (globals ?q))\<rparr>"
    by (simp add: shell_init_truthy js_call_JFun)
  with True inv keeps show ?thesis
    by (simp add: page_inv_def global_get_host_result js_simps)
next
  case False
  with inv st show ?thesis
    by (cases "window_defined p") (auto simp: page_inv_def shell_init_branches js_simps)
qed

lemma page_step_inv:
  "host_keeps_slots host \<Longrightarrow> page_inv p0 p \<Longrightarrow> page_step host p ev = (p', e) \<Longrightarrow> page_inv p0 p'"
  by (cases ev) (auto intro: load_fragment_inv shell_init_inv)

subsection \<open>Reachable pages\<close>

text \<open>C6: on a page that starts with no hook installed and whose hook keeps the
  two slots, every page reachable by fragments and shell initialisations in any
  order satisfies the protocol invariant.\<close>

theorem reachable_page_inv:
  assumes "reachable host p0 p" and "host_keeps_slots host"
    and "\<not> truthy (global_get p0 hook_name)"
  shows "page_inv p0 p"
  using assms(1)
proof (induction rule: reachable.induct)
  case init
  with assms(3) show ?case by (simp add: page_inv_def)
next
  case (step p ev p' e)
  with assms(2) show ?case by (blast intro: page_step_inv)
qed

lemma reachable_page_inv_aux:
  "reachable host p0 p \<Longrightarrow> host_keeps_slots host \<Longrightarrow> \<not> truthy (global_get p0 hook_name) \<Longrightarrow>
     page_inv p0 p"
  by (induction rule: reachable.induct) (simp add: page_inv_def, blast intro: page_step_inv)

text \<open>C7: under that protocol the fragment never raises TypeError: whenever the
  hook is truthy it is a function.\<close>

theorem fragment_no_type_error:
  assumes "reachable host p0 p" and "host_keeps_slots host"
    and "\<not> truthy (global_get p0 hook_name)"
  shows "snd (load_fragment host t p) \<noteq> Some (TypeError ''window.register_implementors is not a function'')"
proof -
  from assms have inv: "page_inv p0 p" by (rule reachable_page_inv_aux)
  show ?thesis
  proof (cases "window_defined p \<and> truthy (global_get p hook_name)")
    case True
    with inv obtain i where "global_get p hook_name = JFun i"
      by (cases "global_get p hook_name") (auto simp: page_inv_def)
    with True show ?thesis by (simp add: load_fragment_fun js_call_JFun)
  next
    case False
    then show ?thesis by (auto simp: load_fragment_def)
  qed
qed

subsection \<open>Runs\<close>

lemma page_run_append:
  "fst (page_run host p (xs @ ys)) = fst (page_run host (fst (page_run host p xs)) ys)"
  by (induction xs arbitrary: p) (simp_all add: case_prod_beta)

lemma page_run_before_shell:
  assumes "\<forall>ev \<in> set pre. \<not> is_shell_ready ev" and "window_defined p"
    and "\<not> truthy (global_get p hook_name)"
  shows "window_defined (fst (page_run host p pre)) \<and>
    global_get (fst (page_run host p pre)) hook_name = global_get p hook_name \<and>
    calls (fst (page_run host p pre)) = calls p \<and>
    global_get (fst (page_run host p pre)) pending_name =
      (if loads pre = [] then global_get p pending_name else last (loads pre))"
  using assms
proof (induction pre arbitrary: p)
  case Nil
  then show ?case by simp
next
  case (Cons ev pre)
  then obtain t where ev: "ev = Fragment t" by (cases ev) auto
  let ?q = "global_set pending_name t p"
  have "window_defined ?q" and "\<not> truthy (global_get ?q hook_name)"
    using Cons.prems by (simp_all add: js_simps)
  with Cons.prems Cons.IH [of ?q] ev show ?case
    by (auto simp: load_fragment_falsy js_simps case_prod_beta)
qed

lemma page_run_after_shell:
  assumes "host_keeps_slots host" and "window_defined p"
    and "global_get p hook_name = JFun g" and "\<not> truthy (global_get p pending_name)"
  shows "map snd (calls (fst (page_run host p post))) =
    map snd (calls p) @ map (\<lambda>t. [t]) (loads post)"
  using assms(2-4)
proof (induction post arbitrary: p g)
  case Nil
  then show ?case by simp
next
  case (Cons ev post)
  show ?case
  proof (cases ev)
    case (Fragment t)
    let ?q = "p\<lparr>calls := calls p @ [(g, [t])], globals := fst (host g [t] (globals p))\<rparr>"
    have step: "page_step host p ev = (?q, map_option Thrown (snd (host g [t] (globals p))))"
      using Cons.prems Fragment by (simp add: load_fragment_fun js_call_JFun)
    have "global_get ?q hook_name = JFun g" and "\<not> truthy (global_get ?q pending_name)"
      using Cons.prems assms(1) by (simp_all add: global_get_host_result)
    with Cons.prems Cons.IH [of ?q g] step Fragment show ?thesis
      by (simp add: case_prod_beta)
  next
    case (ShellReady f)
    let ?q = "global_set hook_name (JFun f) p"
    have step: "page_step host p ev = (?q, None)"
      using Cons.prems ShellReady by (simp add: shell_init_falsy)
    have "window_defined ?q" "global_get ?q hook_name = JFun f" "\<not> truthy (global_get ?q pending_name)"
      using Cons.prems by (simp_all add: js_simps)
    with Cons.IH [of ?q f] step ShellReady show ?thesis
      by (simp add: case_prod_beta js_simps)
  qed
qed

text \<open>C5: delivery. On a page with no hook and an empty pending slot, let some
  fragments load, then the shell start, then more events follow. The hook is
  called once for the last table loaded before the shell started (earlier ones
  were overwritten in the pending slot) and once for each table loaded after, in
  load order, with that table as its only argument, and for nothing else.\<close>

theorem page_run_delivers:
  assumes keeps: "host_keeps_slots host" and win: "window_defined p0"
    and nohook: "\<not> truthy (global_get p0 hook_name)"
    and nopend: "\<not> truthy (global_get p0 pending_name)"
    and pre: "\<forall>ev \<in> set pre. \<not> is_shell_ready ev"
    and tables: "\<forall>t \<in> set (loads pre). truthy t"
  shows "map snd (calls (fst (page_run host p0 (pre @ ShellReady f # post)))) =
    map snd (calls p0) @ (if loads pre = [] then [] else [[last (loads pre)]]) @
    map (\<lambda>t. [t]) (loads post)"
proof -
  let ?q = "fst (page_run host p0 pre)"
  have q: "window_defined ?q" "global_get ?q hook_name = global_get p0 hook_name"
    "calls ?q = calls p0"
    "global_get ?q pending_name =
       (if loads pre = [] then global_get p0 pending_name else last (loads pre))"
    using page_run_before_shell [OF pre win nohook] by simp_all
  have run: "fst (page_run host p0 (pre @ ShellReady f # post)) =
      fst (page_run host (fst (shell_init host f ?q)) post)"
    by (simp add: page_run_append case_prod_beta)
  show ?thesis
  proof (cases "loads pre = []")
    case True
    let ?q' = "global_set hook_name (JFun f) ?q"
    from True q nopend have "shell_init host f ?q = (?q', None)"
      by (simp add: shell_init_falsy)
    moreover have "map snd (calls (fst (page_run host ?q' post))) =
        map snd (calls ?q') @ map (\<lambda>t. [t]) (loads post)"
      using True q nopend by (intro page_run_after_shell [OF keeps]) (simp_all add: js_simps)
    ultimately show ?thesis using True q run by (simp add: js_simps)
  next
    case False
    let ?t = "last (loads pre)"
    let ?r = "global_set pending_name JUndefined (global_set hook_name (JFun f) ?q)"
    let ?q' = "?r\<lparr>calls := calls ?r @ [(f, [?t])], globals := fst (host f [?t] (globals ?r))\<rparr>"
    from False tables have "truthy ?t" by simp
    with False q have "fst (shell_init host f ?q) = ?q'"
      by (simp add: shell_init_truthy js_call_JFun)
    moreover have "map snd (calls (fst (page_run host ?q' post))) =
        map snd (calls ?q') @ map (\<lambda>t. [t]) (loads post)"
      using q keeps by (intro page_run_after_shell [OF keeps])
        (simp_all add: global_get_host_result js_simps)
    ultimately show ?thesis using False q run by (simp add: js_simps)
  qed
qed

subsection \<open>No script raises\<close>

lemma page_step_no_exception:
  assumes keeps: "host_keeps_slots host" and nothrow: "\<And>i a g. snd (host i a g) = None"
    and inv: "page_inv p0 p" and win: "window_defined p0"
  shows "snd (page_step host p ev) = None"
proof (cases ev)
  case (Fragment t)
  show ?thesis
  proof (cases "truthy (global_get p hook_name)")
    case True
    with inv obtain i where "global_get p hook_name = JFun i"
      by (cases "global_get p hook_name") (auto simp: page_inv_def)
    with Fragment inv win nothrow show ?thesis
      by (simp add: page_inv_def load_fragment_fun js_call_JFun)
  next
    case False
    with Fragment inv win show ?thesis by (simp add: page_inv_def load_fragment_falsy)
  qed
next
  case (ShellReady f)
  with inv win nothrow show ?thesis
    by (cases "truthy (global_get p pending_name)")
      (simp_all add: page_inv_def shell_init_truthy shell_init_falsy js_call_JFun)
qed

lemma page_run_no_exception_inv:
  assumes "host_keeps_slots host" and "\<And>i a g. snd (host i a g) = None"
    and "window_defined p0" and "page_inv p0 p"
  shows "snd (page_run host p evs) = []"
  using assms(4)
proof (induction evs arbitrary: p)
  case Nil
  then show ?case by simp
next
  case (Cons ev evs)
  obtain p' e where st: "page_step host p ev = (p', e)" by fastforce
  with page_step_no_exception [OF assms(1,2) Cons.prems assms(3), of ev] have "e = None"
    by simp
  moreover from st have "page_inv p0 p'" by (rule page_step_inv [OF assms(1) Cons.prems])
  ultimately show ?case using st Cons.IH by (simp add: case_prod_beta)
qed

text \<open>C8: on a page with \<open>window\<close> and no hook installed, when the hook keeps the two
  slots and throws nothing, no script of any run of fragments and shell
  initialisations raises an exception: neither ReferenceError nor TypeError can
  come from line 4.\<close>

theorem page_run_no_exceptions:
  assumes "host_keeps_slots host" and "\<And>i a g. snd (host i a g) = None"
    and "window_defined p0" and "\<not> truthy (global_get p0 hook_name)"
  shows "snd (page_run host p0 evs) = []"
proof -
  from assms(3,4) have "page_inv p0 p0" by (simp add: page_inv_def)
  with assms(1-3) show ?thesis by (rule page_run_no_exception_inv)
qed

end
