(* ===== verification/Spec2Isabelle.thy ===== *)
theory Spec2Isabelle
  imports Shell
begin

text \<open>
  \<^bold>\<open>A verification development of src/implementors/core/marker/trait.Unpin.js.\<close>

  \<^bold>\<open>The program.\<close> The repository's one source file is a fragment generated by
  rustdoc for the page of the trait \<open>core::marker::Unpin\<close>. Inside an immediately
  invoked function it binds \<open>implementors\<close> to an object literal (lines 1 to 3):
  for each library (actix on line 2, actix_broker on line 3) an array of
  implementor records, each an array literal \<open>[markup]\<close> or
  \<open>[markup, 1, [path]]\<close>. Line 4 then hands the table over: if
  \<open>window.register_implementors\<close> is truthy it is called with the table, otherwise
  the table is stored in \<open>window.pending_implementors\<close>. The page shell that
  installs the hook and later picks up the pending table is not part of the
  repository; the spec describes its side of the contract.

  \<^bold>\<open>Theories.\<close>
  \<^item> Prelude: ordered property lists (\<open>prop_put\<close>, read with \<open>map_of\<close>), the
    order in which JavaScript objects keep their own properties, and the
    \<open>js_simps\<close> collection of their read-after-write and key-order lemmas.
  \<^item> JsValue: the values (\<open>jsval\<close>), the exceptions (\<open>exn\<close>), ToBoolean
    (\<open>truthy\<close>), callability (\<open>is_function\<close>) and the evaluation of an object
    literal (\<open>obj_literal\<close>).
  \<^item> ImplRecord: the reading of a table value as typed records
    (\<open>impl_record\<close> with its two shapes, \<open>decode_record\<close>, \<open>decode_table\<close>).
  \<^item> Implementors: the literal of lines 1 to 3 transcribed value for value
    (\<open>actix_text_NN\<close>, \<open>actix_broker_text_NN\<close>, \<open>implementors_actix\<close>,
    \<open>implementors_actix_broker\<close>, \<open>implementors\<close>) and the typed table it
    decodes to (\<open>decode_implementors\<close>).
  \<^item> Loader: the page (\<open>page\<close>: whether \<open>window\<close> is bound, its own properties,
    the log of host calls), property access (\<open>global_get\<close>, \<open>global_set\<close>), calls
    (\<open>js_call\<close>, TypeError on a non-function), the dispatch of line 4
    (\<open>load_fragment\<close>, for any table) and the whole script
    (\<open>run_unpin_fragment\<close>), with the behaviour of every branch.
  \<^item> Shell: the shell's side from the spec (\<open>shell_init\<close>), pages running
    fragments and the shell as separate scripts in any order (\<open>event\<close>,
    \<open>page_step\<close>, \<open>page_run\<close>, \<open>reachable\<close>), the protocol invariant
    (\<open>page_inv\<close>), the delivery theorem and the absence of exceptions.
  \<^item> this theory: the properties of the Unpin fragment itself on a page, and the
    witnesses of the theorems with hypotheses.

  \<^bold>\<open>Effects.\<close> Host functions are a parameter \<open>host\<close> from function identifier,
  arguments and the properties of \<open>window\<close> to new properties and an optional
  thrown value; every call is logged in \<open>calls\<close> before it runs, which is how
  ``the hook was invoked once with the table'' is stated. Exceptions do not roll
  back effects, so operations return the page together with an optional
  exception. There are no loops in the program and no fuel anywhere: every
  definition is total by structural recursion.

  \<^bold>\<open>Properties.\<close> Every branch of line 4 (stash, call, TypeError for a truthy
  non-function, ReferenceError without \<open>window\<close>, exceptions of the hook), the
  overwrite semantics of the pending slot, the invariant of the hand-over protocol
  over all orders of scripts and the absence of TypeError under it, the delivery
  of tables to the hook (exactly the last table before the shell starts and every
  table after), the absence of any exception in any run when the hook throws
  nothing, and, end to end, that where no hook is installed the pending slot holds
  a table reading back as the two libraries of the source with 48 and 3 records.

  \<^bold>\<open>Plan.\<close> Modelled in this order: the dispatch of line 4 (the program's
  behaviour), the shell's side and the orders of scripts (the contract the
  dispatch serves), the table literal and its typed view. Facts about the fixed literal alone (its
  counts, flags and paths) are computations on one input, not properties of the
  code, and are not stated as theorems; the findings of the manifest record them.
  Still to state: the
  abstract hand-over of spec section 9 (\<open>register(table, sink)\<close> returning which
  action was taken) with a refinement lemma for \<open>load_fragment\<close>, the
  consumption of the table by a hook that reads it with \<open>decode_table\<close>
  (records of the two shapes, the flag as the synthetic marker), and integer-index
  keys in the key order of objects, which the table's keys do not use.

  \<^bold>\<open>Not modelled.\<close> Rendering of the markup and everything the hook does beyond
  its effect on \<open>window\<close> (it is a parameter); getters, setters and the
  prototype chain of \<open>window\<close> (property reads are own-property lookups, so the
  two reads of the hook on line 4 agree); fractional numbers and NaN (the table
  holds the integer 1 only); object identity (objects are values: the fragment
  never mutates the table once built).
\<close>

definition empty_page :: page where
  "empty_page = \<lparr>window_defined = True, globals = [], calls = []\<rparr>"

definition recorder :: host where
  "recorder i args g = (g, None)"

definition hook_page :: page where
  "hook_page = empty_page\<lparr>globals := [(''register_implementors'', JFun 0)]\<rparr>"

definition bad_hook_page :: page where
  "bad_hook_page = empty_page\<lparr>globals := [(''register_implementors'', JBool True)]\<rparr>"

lemmas page_fixtures = empty_page_def recorder_def hook_page_def bad_hook_page_def

text \<open>C9: run where no hook is installed, the fragment leaves in the pending slot
  a table that reads back as the two libraries with 48 and 3 records.\<close>

theorem unpin_fragment_pending_table:
  assumes "window_defined p" and "\<not> truthy (global_get p hook_name)"
  shows "map_option (map (\<lambda>(k, rs). (k, length rs)))
      (decode_table (global_get (fst (run_unpin_fragment host p)) pending_name)) =
    Some [(''actix'', 48), (''actix_broker'', 3)]"
  using assms by (simp add: run_unpin_fragment_def load_fragment_falsy js_simps decode_implementors)

subsection \<open>Witnesses\<close>

text \<open>Each theorem with hypotheses, applied where its hypotheses hold.\<close>

theorem load_fragment_stash_witness:
  "window_defined empty_page \<and> \<not> truthy (global_get empty_page hook_name) \<and>
   load_fragment recorder (JNum 7) empty_page =
     (empty_page\<lparr>globals := [(pending_name, JNum 7)]\<rparr>, None) \<and>
   global_get (empty_page\<lparr>globals := [(pending_name, JNum 7)]\<rparr>) pending_name = JNum 7"
proof -
  have h: "window_defined empty_page" "\<not> truthy (global_get empty_page hook_name)"
    "load_fragment recorder (JNum 7) empty_page =
       (empty_page\<lparr>globals := [(pending_name, JNum 7)]\<rparr>, None)"
    by (simp_all add: page_fixtures load_fragment_def global_get_def global_set_def)
  show ?thesis using load_fragment_stash [OF h] h by simp
qed

theorem load_fragment_calls_hook_witness:
  "window_defined hook_page \<and> global_get hook_page hook_name = JFun 0 \<and>
   load_fragment recorder (JNum 7) hook_page = (hook_page\<lparr>calls := [(0, [JNum 7])]\<rparr>, None)"
proof -
  have h: "window_defined hook_page" "global_get hook_page hook_name = JFun 0"
    by (simp_all add: page_fixtures global_get_def)
  show ?thesis using load_fragment_calls_hook [OF h, of recorder "JNum 7"] h
    by (simp add: page_fixtures)
qed

theorem load_fragment_errors_witness:
  "load_fragment recorder (JNum 7) bad_hook_page =
     (bad_hook_page, Some (TypeError ''window.register_implementors is not a function'')) \<and>
   truthy (global_get bad_hook_page hook_name) \<and> \<not> is_function (global_get bad_hook_page hook_name)"
proof -
  have h: "load_fragment recorder (JNum 7) bad_hook_page =
     (bad_hook_page, Some (TypeError ''window.register_implementors is not a function''))"
    by (simp add: page_fixtures load_fragment_def global_get_def js_call_def)
  show ?thesis using load_fragment_errors [OF h] h by simp
qed

theorem load_fragment_overwrite_witness:
  "window_defined empty_page \<and> \<not> truthy (global_get empty_page hook_name) \<and>
   load_fragment recorder (JNum 1) empty_page =
     (empty_page\<lparr>globals := [(pending_name, JNum 1)]\<rparr>, None) \<and>
   load_fragment recorder (JNum 2) (empty_page\<lparr>globals := [(pending_name, JNum 1)]\<rparr>) =
     (empty_page\<lparr>globals := [(pending_name, JNum 2)]\<rparr>, None) \<and>
   global_get (empty_page\<lparr>globals := [(pending_name, JNum 2)]\<rparr>) pending_name = JNum 2"
proof -
  have h: "window_defined empty_page" "\<not> truthy (global_get empty_page hook_name)"
    "load_fragment recorder (JNum 1) empty_page =
       (empty_page\<lparr>globals := [(pending_name, JNum 1)]\<rparr>, None)"
    "load_fragment recorder (JNum 2) (empty_page\<lparr>globals := [(pending_name, JNum 1)]\<rparr>) =
       (empty_page\<lparr>globals := [(pending_name, JNum 2)]\<rparr>, None)"
    by (simp_all add: page_fixtures load_fragment_def global_get_def global_set_def)
  show ?thesis using load_fragment_overwrite [OF h] h by simp
qed

lemma host_keeps_slots_recorder: "host_keeps_slots recorder"
  by (simp add: host_keeps_slots_def recorder_def)

theorem page_run_delivers_witness:
  "map snd (calls (fst (page_run recorder empty_page
      ([Fragment (JNum 1), Fragment (JNum 2)] @ ShellReady 0 # [Fragment (JNum 3)])))) =
   [[JNum 2], [JNum 3]]"
proof -
  have h: "window_defined empty_page" "\<not> truthy (global_get empty_page hook_name)"
    "\<not> truthy (global_get empty_page pending_name)"
    by (simp_all add: page_fixtures global_get_def)
  show ?thesis
    using page_run_delivers [OF host_keeps_slots_recorder h,
        of "[Fragment (JNum 1), Fragment (JNum 2)]" 0 "[Fragment (JNum 3)]"]
    by (simp add: page_fixtures)
qed

theorem reachable_page_inv_witness:
  "reachable recorder empty_page (global_set hook_name (JFun 0) empty_page) \<and>
   page_inv empty_page (global_set hook_name (JFun 0) empty_page)"
proof -
  have st: "page_step recorder empty_page (ShellReady 0) = (global_set hook_name (JFun 0) empty_page, None)"
    by (simp add: page_fixtures shell_init_def global_get_def global_set_def)
  have r: "reachable recorder empty_page (global_set hook_name (JFun 0) empty_page)"
    by (rule reachable.step [OF reachable.init st])
  have h: "\<not> truthy (global_get empty_page hook_name)"
    by (simp add: page_fixtures global_get_def)
  show ?thesis using reachable_page_inv [OF r host_keeps_slots_recorder h] r by simp
qed

theorem fragment_no_type_error_witness:
  "reachable recorder empty_page (global_set hook_name (JFun 0) empty_page) \<and>
   snd (load_fragment recorder implementors (global_set hook_name (JFun 0) empty_page)) \<noteq>
     Some (TypeError ''window.register_implementors is not a function'')"
proof -
  have st: "page_step recorder empty_page (ShellReady 0) = (global_set hook_name (JFun 0) empty_page, None)"
    by (simp add: page_fixtures shell_init_def global_get_def global_set_def)
  have r: "reachable recorder empty_page (global_set hook_name (JFun 0) empty_page)"
    by (rule reachable.step [OF reachable.init st])
  have h: "\<not> truthy (global_get empty_page hook_name)"
    by (simp add: page_fixtures global_get_def)
  show ?thesis using fragment_no_type_error [OF r host_keeps_slots_recorder h] r by simp
qed

theorem page_run_no_exceptions_witness:
  "snd (page_run recorder empty_page
      [Fragment (JNum 1), ShellReady 0, Fragment (JNum 2), ShellReady 1]) = []"
proof -
  have h: "window_defined empty_page" "\<not> truthy (global_get empty_page hook_name)"
    by (simp_all add: page_fixtures global_get_def)
  have nothrow: "\<And>i a g. snd (recorder i a g) = None" by (simp add: recorder_def)
  show ?thesis using page_run_no_exceptions [OF host_keeps_slots_recorder nothrow h] .
qed

theorem unpin_fragment_pending_table_witness:
  "window_defined empty_page \<and> \<not> truthy (global_get empty_page hook_name) \<and>
   map_option (map (\<lambda>(k, rs). (k, length rs)))
      (decode_table (global_get (fst (run_unpin_fragment recorder empty_page)) pending_name)) =
    Some [(''actix'', 48), (''actix_broker'', 3)]"
proof -
  have h: "window_defined empty_page" "\<not> truthy (global_get empty_page hook_name)"
    by (simp_all add: page_fixtures global_get_def)
  show ?thesis using unpin_fragment_pending_table [OF h] h by simp
qed

end
